theory Spec2Isabelle
  imports Complex_Main "HOL-Library.Word" "HOL-Library.Log_Nat"
begin

section \<open>The real-time meeting translator: session state and handlers of App.tsx\<close>

text \<open>
  The component \<^verbatim>\<open>App\<close> of \<^verbatim>\<open>src/App.tsx\<close> keeps its state in React state
  variables and refs and changes it in callbacks: the two button handlers, the four
  callbacks of the live session, the capture callback and the \<^verbatim>\<open>ended\<close> listener of
  every playback source. Each callback is embedded as a function from the state before to
  the state after. What a callback reads from the outside (the device clock, the wall
  clock, the outcome of an awaited promise) is an argument; what it does to the outside
  (stopping a track, starting a source, closing the session) is appended to a log of
  calls kept in the state. The message handler is asynchronous and can be suspended at
  its \<^verbatim>\<open>await\<close> while other callbacks run: the handlers suspended there are part of
  the state, each with the local values it goes on with.
\<close>

subsection \<open>Strings\<close>

text \<open>
  A JavaScript string is a sequence of UTF-16 code units. \<^verbatim>\<open>a + b\<close> is \<open>a @ b\<close>, the empty
  string is \<open>[]\<close>, and a string is truthy when it is not empty.
\<close>

type_synonym jsstring = "16 word list"

definition js_of_ascii :: "string \<Rightarrow> jsstring" where
  "js_of_ascii s = map (\<lambda>c. of_nat (of_char c)) s"

text \<open>
  \<^verbatim>\<open>String.prototype.trim\<close> removes the code points of WhiteSpace and LineTerminator
  from both ends: TAB, LF, VT, FF, CR, SP, NBSP, U+1680, U+2000 to U+200A, LS, PS, U+202F,
  U+205F, U+3000 and U+FEFF. All of them are single code units.
\<close>

definition isWhiteSpace :: "16 word \<Rightarrow> bool" where
  "isWhiteSpace c = (c \<in> set [0x0009, 0x000A, 0x000B, 0x000C, 0x000D, 0x0020, 0x00A0,
     0x1680, 0x2000, 0x2001, 0x2002, 0x2003, 0x2004, 0x2005, 0x2006, 0x2007, 0x2008,
     0x2009, 0x200A, 0x2028, 0x2029, 0x202F, 0x205F, 0x3000, 0xFEFF])"

definition trim :: "jsstring \<Rightarrow> jsstring" where
  "trim s = rev (dropWhile isWhiteSpace (rev (dropWhile isWhiteSpace s)))"

definition truthy :: "jsstring \<Rightarrow> bool" where
  "truthy s = (s \<noteq> [])"

text \<open>
  The operand of a string concatenation that may be \<^verbatim>\<open>undefined\<close>: \<^verbatim>\<open>prev + text\<close>
  appends the nine letters of \<^verbatim>\<open>undefined\<close> then.
\<close>

definition js_string :: "jsstring option \<Rightarrow> jsstring" where
  "js_string v = (case v of None \<Rightarrow> js_of_ascii ''undefined'' | Some s \<Rightarrow> s)"

subsection \<open>Numbers\<close>

text \<open>
  A JavaScript number is an IEEE 754 binary64 value. The times of this program are
  finite, and a finite double is a real number: an integer multiple of 2 to the power
  -1074 with at most 53 significant bits. \<^verbatim>\<open>a + b\<close> is the exact sum rounded to the
  nearest double, ties to the even one (\<open>js_add\<close>); \<^verbatim>\<open>Math.max\<close> and the comparisons
  are exact. \<open>round_scaled\<close> rounds a value given in units of 2 to the power -1074:
  with \<open>L\<close> the number of bits of its integer part, the results are the multiples of 2
  to the power \<open>L - 53\<close>, or of 1 for the subnormal values. A sum beyond the largest
  double (about 1.8e308 seconds), which JavaScript turns into \<^verbatim>\<open>Infinity\<close>, is rounded
  here like any other.
\<close>

definition round_half_even :: "real \<Rightarrow> int" where
  "round_half_even x =
     (let f = \<lfloor>x\<rfloor>; r = x - of_int f
      in if r < 1 / 2 then f else if 1 / 2 < r then f + 1 else if even f then f else f + 1)"

definition quantum :: "real \<Rightarrow> nat" where
  "quantum X = nat (bitlen \<lfloor>X\<rfloor> - 53)"

definition round_scaled :: "real \<Rightarrow> int" where
  "round_scaled X = round_half_even (X / 2 ^ quantum X) * 2 ^ quantum X"

definition scale :: real where
  "scale = 2 ^ 1074"

definition round_double :: "real \<Rightarrow> real" where
  "round_double x = sgn x * (of_int (round_scaled (\<bar>x\<bar> * scale)) / scale)"

definition js_add :: "real \<Rightarrow> real \<Rightarrow> real" where
  "js_add a b = round_double (a + b)"

definition is_double :: "real \<Rightarrow> bool" where
  "is_double x = (round_double x = x)"

subsection \<open>types.ts\<close>

datatype AppStatus = IDLE | CONNECTING | LISTENING | ERROR

record TranscriptionTurn =
  id_turn :: int
  chinese :: jsstring
  english :: jsstring

subsection \<open>The outside world\<close>

text \<open>
  A media stream is the list of its tracks, a playback source
  (\<^verbatim>\<open>AudioBufferSourceNode\<close>) is the number it was created under, an audio context is
  its \<^verbatim>\<open>state\<close> property. The session promise is opaque: the code only tests the ref
  holding it for null and awaits it.
\<close>

type_synonym MediaStreamTrack = nat
type_synonym MediaStream = "MediaStreamTrack list"
type_synonym AudioBufferSourceNode = nat

datatype AudioContextState = ctx_suspended | ctx_running | ctx_closed

datatype SessionPromise = SessionPromise

datatype ScriptProcessorNode = ScriptProcessorNode

text \<open>What an \<^verbatim>\<open>await\<close> of the session promise yields.\<close>

datatype await_result = SessionResolved | SessionRejected

text \<open>The calls made on the outside, in the order they are made.\<close>

datatype effect =
    TrackStop MediaStreamTrack
  | ProcessorDisconnect
  | InputContextClose
  | OutputContextClose
  | SourceStart AudioBufferSourceNode real
  | SourceStop AudioBufferSourceNode
  | SessionClose
  | LiveConnect
  | SendRealtimeInput

subsection \<open>Messages of the server\<close>

text \<open>
  A message as far as \<^verbatim>\<open>onmessage\<close> reads it, with the optional properties of the
  library's types: a transcription may lack its \<^verbatim>\<open>text\<close>, the content of a model turn
  its \<^verbatim>\<open>parts\<close>, a part its \<^verbatim>\<open>inlineData\<close>, the inline data its \<^verbatim>\<open>data\<close>. A message
  without \<^verbatim>\<open>serverContent\<close> is the one with no property and both flags false; a flag
  that is absent is false.
\<close>

datatype Transcription = Transcription "jsstring option"

datatype Blob = Blob "jsstring option"

datatype Part = Part "Blob option"

datatype Content = Content "Part list option"

record LiveServerMessage =
  inputTranscription :: "Transcription option"
  outputTranscription :: "Transcription option"
  modelTurn :: "Content option"
  interrupted :: bool
  turnComplete :: bool

text \<open>
  What the handler reads when a message arrives: the clock of the output context (line
  186) and \<^verbatim>\<open>Date.now()\<close> (line 218, when the handler gets there without a stop).
\<close>

record readings =
  currentTime :: real
  dateNow :: int

text \<open>
  What the \<^verbatim>\<open>await\<close> of line 188 yields: the decoded buffer, of which the handler
  reads the \<^verbatim>\<open>duration\<close>, or a rejection. \<^verbatim>\<open>decode\<close> and \<^verbatim>\<open>decodeAudioData\<close> are in
  \<^verbatim>\<open>utils/audio\<close>; an exception thrown by one of them before the promise exists ends
  the handler like a rejection.
\<close>

datatype decode_result = Decoded real | DecodeRejected

datatype js_error = TypeError

subsection \<open>The state of the component\<close>

text \<open>
  A handler suspended at line 188 goes on with its constant \<^verbatim>\<open>nextStartTime\<close> (line
  184) and its message.
\<close>

record suspended_handler =
  local_nextStartTime :: real
  local_message :: LiveServerMessage

record app_state =
  status :: AppStatus
  transcriptionHistory :: "TranscriptionTurn list"
  currentChinese :: jsstring
  currentEnglish :: jsstring
  sessionPromiseRef :: "SessionPromise option"
  streamRef :: "MediaStream option"
  audioContextRef :: "AudioContextState option"
  processorRef :: "ScriptProcessorNode option"
  outputAudioContextRef :: "AudioContextState option"
  nextStartTimeRef :: real
  audioSourcesRef :: "AudioBufferSourceNode list"
  currentChineseRef :: jsstring
  currentEnglishRef :: jsstring
  effects :: "effect list"
  nodeCounter :: nat
  suspended :: "suspended_handler list"

text \<open>
  \<^verbatim>\<open>audioSourcesRef\<close> is a JavaScript \<^verbatim>\<open>Set\<close>: it iterates in insertion order and
  holds no element twice. \<open>nodeCounter\<close> numbers the sources created so far, so that
  \<^verbatim>\<open>createBufferSource()\<close> returns a new object each time. Times are seconds of the
  output context's clock.
\<close>

definition set_add :: "'a \<Rightarrow> 'a list \<Rightarrow> 'a list" where
  "set_add x xs = (if x \<in> set xs then xs else xs @ [x])"

definition set_delete :: "'a \<Rightarrow> 'a list \<Rightarrow> 'a list" where
  "set_delete x xs = filter (\<lambda>y. y \<noteq> x) xs"

text \<open>The initial values of \<^verbatim>\<open>useState\<close> and \<^verbatim>\<open>useRef\<close>, lines 64 to 80.\<close>

definition initial_state :: app_state where
  "initial_state = \<lparr> status = IDLE, transcriptionHistory = [], currentChinese = [],
     currentEnglish = [], sessionPromiseRef = None, streamRef = None,
     audioContextRef = None, processorRef = None, outputAudioContextRef = None,
     nextStartTimeRef = 0, audioSourcesRef = [], currentChineseRef = [],
     currentEnglishRef = [], effects = [], nodeCounter = 0, suspended = [] \<rparr>"

subsection \<open>cleanUpAudio, lines 82 to 105\<close>

definition cleanUpAudio :: "app_state \<Rightarrow> app_state" where
  "cleanUpAudio st =
    (let e1 = (case streamRef st of None \<Rightarrow> [] | Some tracks \<Rightarrow> map TrackStop tracks);
         e2 = (case processorRef st of None \<Rightarrow> [] | Some p \<Rightarrow> [ProcessorDisconnect]);
         e3 = (case audioContextRef st of None \<Rightarrow> []
               | Some s \<Rightarrow> if s \<noteq> ctx_closed then [InputContextClose] else []);
         e4 = (case outputAudioContextRef st of None \<Rightarrow> []
               | Some s \<Rightarrow> if s \<noteq> ctx_closed then [OutputContextClose] else []);
         e5 = map SourceStop (audioSourcesRef st)
     in st\<lparr> streamRef := None, processorRef := None, audioContextRef := None,
            outputAudioContextRef := None, audioSourcesRef := [], nextStartTimeRef := 0,
            effects := effects st @ e1 @ e2 @ e3 @ e4 @ e5 \<rparr>)"

subsection \<open>handleStopListening, lines 107 to 120\<close>

text \<open>
  When the ref holds a session promise the handler awaits it: \<open>r\<close> is what the await
  yields, the promise being taken to settle. A resolved promise gives the session, which
  is closed; a rejected one, and a \<^verbatim>\<open>close()\<close> that throws, end in the \<^verbatim>\<open>catch\<close>,
  which only logs. The \<^verbatim>\<open>finally\<close> clears the ref. Whatever happened, the teardown
  runs and the status is set to Idle.
\<close>

definition handleStopListening :: "app_state \<Rightarrow> await_result \<Rightarrow> app_state" where
  "handleStopListening st r =
    (let st1 = (case sessionPromiseRef st of
                  None \<Rightarrow> st
                | Some p \<Rightarrow>
                    (case r of
                       SessionResolved \<Rightarrow> st\<lparr> effects := effects st @ [SessionClose] \<rparr>
                     | SessionRejected \<Rightarrow> st) \<lparr> sessionPromiseRef := None \<rparr>)
     in (cleanUpAudio st1) \<lparr> status := IDLE \<rparr>)"

subsection \<open>handleStartListening, lines 123 to 248\<close>

text \<open>
  The handler runs to its \<^verbatim>\<open>await\<close> of \<^verbatim>\<open>getUserMedia\<close>
  (\<open>handleStartListening_begin\<close>, lines 124 to 129) and goes on when the promise is
  settled (\<open>handleStartListening_resume\<close>): with the stream, lines 135 to 240, or in the
  \<^verbatim>\<open>catch\<close> with the message of the error, lines 242 to 246. \<^verbatim>\<open>ai.live.connect\<close>
  returns a promise, which is stored in the ref and not awaited here. The constructors
  called after the \<^verbatim>\<open>await\<close> are taken not to throw.
\<close>

definition handleStartListening_begin :: "app_state \<Rightarrow> app_state" where
  "handleStartListening_begin st =
     st\<lparr> status := CONNECTING, currentChinese := [], currentEnglish := [],
         currentChineseRef := [], currentEnglishRef := [], transcriptionHistory := [] \<rparr>"

definition handleStartListening_resume ::
    "app_state \<Rightarrow> jsstring + MediaStream \<Rightarrow> app_state" where
  "handleStartListening_resume st r =
    (case r of
       Inr stream \<Rightarrow>
         st\<lparr> streamRef := Some stream, outputAudioContextRef := Some ctx_running,
             sessionPromiseRef := Some SessionPromise,
             effects := effects st @ [LiveConnect] \<rparr>
     | Inl errorMessage \<Rightarrow>
         cleanUpAudio (st\<lparr> status := ERROR,
                           currentEnglish := js_of_ascii ''Error: '' @ errorMessage \<rparr>))"

definition handleStartListening :: "app_state \<Rightarrow> jsstring + MediaStream \<Rightarrow> app_state" where
  "handleStartListening st r = handleStartListening_resume (handleStartListening_begin st) r"

text \<open>
  The states a run of the handler goes through: the one it is called in, the one it
  leaves at the \<^verbatim>\<open>await\<close>, the one it ends in.
\<close>

definition handleStartListening_run :: "app_state \<Rightarrow> jsstring + MediaStream \<Rightarrow> app_state list" where
  "handleStartListening_run st r =
     [st, handleStartListening_begin st, handleStartListening st r]"

subsection \<open>The callbacks of the session, lines 150 to 239\<close>

definition onopen :: "app_state \<Rightarrow> app_state" where
  "onopen st = st\<lparr> status := LISTENING, audioContextRef := Some ctx_running,
                   processorRef := Some ScriptProcessorNode \<rparr>"

text \<open>
  \<^verbatim>\<open>onaudioprocess\<close>, lines 157 to 163: the frame is sent through the promise in the
  ref, which is resolved once the session is open.
\<close>

definition onaudioprocess :: "app_state \<Rightarrow> app_state" where
  "onaudioprocess st =
    (case sessionPromiseRef st of
       None \<Rightarrow> st
     | Some p \<Rightarrow> st\<lparr> effects := effects st @ [SendRealtimeInput] \<rparr>)"

text \<open>
  Lines 169 to 173 and 175 to 179: the text of the transcription, or \<^verbatim>\<open>undefined\<close>, is
  appended to the string on display and to the accumulator.
\<close>

definition onmessage_inputTranscription ::
    "app_state \<Rightarrow> Transcription option \<Rightarrow> app_state" where
  "onmessage_inputTranscription st t =
    (case t of
       None \<Rightarrow> st
     | Some (Transcription text) \<Rightarrow>
         st\<lparr> currentChinese := currentChinese st @ js_string text,
             currentChineseRef := currentChineseRef st @ js_string text \<rparr>)"

definition onmessage_outputTranscription ::
    "app_state \<Rightarrow> Transcription option \<Rightarrow> app_state" where
  "onmessage_outputTranscription st t =
    (case t of
       None \<Rightarrow> st
     | Some (Transcription text) \<Rightarrow>
         st\<lparr> currentEnglish := currentEnglish st @ js_string text,
             currentEnglishRef := currentEnglishRef st @ js_string text \<rparr>)"

text \<open>
  Line 181, \<^verbatim>\<open>message.serverContent?.modelTurn?.parts[0]?.inlineData?.data\<close>: every step
  is an optional chain but the index into \<^verbatim>\<open>parts\<close>, which throws a TypeError when the
  model turn has no \<^verbatim>\<open>parts\<close>. Past the end of a list the index gives \<^verbatim>\<open>undefined\<close>.
\<close>

fun first_inlineData_data :: "Part list \<Rightarrow> jsstring option" where
  "first_inlineData_data [] = None"
| "first_inlineData_data (Part None # ps) = None"
| "first_inlineData_data (Part (Some (Blob d)) # ps) = d"

definition base64EncodedAudioString :: "LiveServerMessage \<Rightarrow> js_error + jsstring option" where
  "base64EncodedAudioString message =
    (case modelTurn message of
       None \<Rightarrow> Inr None
     | Some (Content None) \<Rightarrow> Inl TypeError
     | Some (Content (Some ps)) \<Rightarrow> Inr (first_inlineData_data ps))"

text \<open>The test of line 182: \<^verbatim>\<open>undefined\<close> and the empty string are falsy.\<close>

definition schedules :: "app_state \<Rightarrow> jsstring option \<Rightarrow> bool" where
  "schedules st d =
    ((case d of None \<Rightarrow> False | Some s \<Rightarrow> truthy s) \<and> outputAudioContextRef st \<noteq> None)"

text \<open>Lines 207 to 211.\<close>

definition onmessage_interrupted :: "app_state \<Rightarrow> bool \<Rightarrow> app_state" where
  "onmessage_interrupted st b =
    (if b then
       st\<lparr> effects := effects st @ map SourceStop (audioSourcesRef st),
           audioSourcesRef := [], nextStartTimeRef := 0 \<rparr>
     else st)"

text \<open>Lines 213 to 225; \<open>now\<close> is \<^verbatim>\<open>Date.now()\<close>.\<close>

definition onmessage_turnComplete :: "app_state \<Rightarrow> bool \<Rightarrow> int \<Rightarrow> app_state" where
  "onmessage_turnComplete st b now =
    (if b then
       (let finalChinese = currentChineseRef st;
            finalEnglish = currentEnglishRef st;
            st1 = (if truthy (trim finalChinese) \<or> truthy (trim finalEnglish) then
                     st\<lparr> transcriptionHistory := transcriptionHistory st @
                           [\<lparr> id_turn = now, chinese = finalChinese,
                              english = finalEnglish \<rparr>] \<rparr>
                   else st)
        in st1\<lparr> currentChinese := [], currentEnglish := [],
                currentChineseRef := [], currentEnglishRef := [] \<rparr>)
     else st)"

text \<open>
  \<^verbatim>\<open>onmessage\<close> from its call to its first stop, lines 169 to 193. The two
  transcription blocks run. Then line 181 throws, which ends the handler: it is an async
  function, the exception rejects its promise and nothing catches it. Or the message has
  audio to schedule and there is an output context: the handler computes its start time
  from \<^verbatim>\<open>nextStartTimeRef\<close> and the clock (lines 184 to 187), starts the decoding and is
  suspended at the \<^verbatim>\<open>await\<close> of line 188. Or it has none, and the handler runs on
  through lines 207 to 225 at once.
\<close>

definition onmessage :: "app_state \<Rightarrow> LiveServerMessage \<Rightarrow> readings \<Rightarrow> app_state" where
  "onmessage st message rd =
    (let st1 = onmessage_inputTranscription st (inputTranscription message);
         st2 = onmessage_outputTranscription st1 (outputTranscription message)
     in case base64EncodedAudioString message of
          Inl error \<Rightarrow> st2
        | Inr d \<Rightarrow>
            if schedules st2 d then
              st2\<lparr> suspended := suspended st2 @
                    [\<lparr> local_nextStartTime = max (nextStartTimeRef st2) (currentTime rd),
                       local_message = message \<rparr>] \<rparr>
            else
              onmessage_turnComplete
                (onmessage_interrupted st2 (interrupted message))
                (turnComplete message) (dateNow rd))"

text \<open>
  \<^verbatim>\<open>onmessage\<close> from the \<^verbatim>\<open>await\<close> on, lines 194 to 225, for a handler \<open>h\<close> that was
  suspended there. A rejected decoding ends the handler. Otherwise the source is made and
  started at the start time computed before the \<^verbatim>\<open>await\<close>, \<^verbatim>\<open>nextStartTimeRef\<close> is
  set to that time plus the duration of the buffer, the source is added to the set, and
  the handler runs on through the interruption and turn-complete blocks; \<open>now\<close> is
  \<^verbatim>\<open>Date.now()\<close> at that moment. The handler creates the source on the context it took
  from the ref before the \<^verbatim>\<open>await\<close> (line 183), whatever the ref holds now.
\<close>

definition onmessage_resume ::
    "app_state \<Rightarrow> suspended_handler \<Rightarrow> decode_result \<Rightarrow> int \<Rightarrow> app_state" where
  "onmessage_resume st h r now =
    (case r of
       DecodeRejected \<Rightarrow> st
     | Decoded duration \<Rightarrow>
         (let source = nodeCounter st;
              st3 = st\<lparr> nodeCounter := Suc source,
                       effects := effects st @ [SourceStart source (local_nextStartTime h)],
                       nextStartTimeRef := js_add (local_nextStartTime h) duration,
                       audioSourcesRef := set_add source (audioSourcesRef st) \<rparr>
          in onmessage_turnComplete
               (onmessage_interrupted st3 (interrupted (local_message h)))
               (turnComplete (local_message h)) now))"

text \<open>
  The decoding awaited by the \<open>k\<close>-th suspended handler settles: the handler leaves the
  list and goes on.
\<close>

definition ondecoded :: "app_state \<Rightarrow> nat \<Rightarrow> decode_result \<Rightarrow> int \<Rightarrow> app_state" where
  "ondecoded st k r now =
    (if k < length (suspended st) then
       onmessage_resume
         (st\<lparr> suspended := take k (suspended st) @ drop (Suc k) (suspended st) \<rparr>)
         (suspended st ! k) r now
     else st)"

text \<open>
  Lines 228 to 233: the status is set to Error, the message is shown, and
  \<^verbatim>\<open>handleStopListening()\<close> is called; \<open>r\<close> is what its await yields.
\<close>

definition onerror :: "app_state \<Rightarrow> jsstring \<Rightarrow> await_result \<Rightarrow> app_state" where
  "onerror st message r =
     handleStopListening
       (st\<lparr> status := ERROR, currentEnglish := js_of_ascii ''Error: '' @ message \<rparr>) r"

text \<open>Lines 234 to 238.\<close>

definition onclose :: "app_state \<Rightarrow> app_state" where
  "onclose st =
     cleanUpAudio (st\<lparr> status := (if status st = ERROR then ERROR else IDLE) \<rparr>)"

text \<open>The \<^verbatim>\<open>ended\<close> listener of a source, lines 198 to 200.\<close>

definition ended :: "app_state \<Rightarrow> AudioBufferSourceNode \<Rightarrow> app_state" where
  "ended st source = st\<lparr> audioSourcesRef := set_delete source (audioSourcesRef st) \<rparr>"

subsection \<open>The component as a state machine\<close>

datatype event =
    StartListening "jsstring + MediaStream"
  | StopListening await_result
  | OnOpen
  | OnAudioProcess
  | OnMessage LiveServerMessage readings
  | OnDecoded nat decode_result int
  | OnError jsstring await_result
  | OnClose
  | Ended AudioBufferSourceNode

fun step :: "app_state \<Rightarrow> event \<Rightarrow> app_state" where
  "step st (StartListening r) = handleStartListening st r"
| "step st (StopListening r) = handleStopListening st r"
| "step st OnOpen = onopen st"
| "step st OnAudioProcess = onaudioprocess st"
| "step st (OnMessage message rd) = onmessage st message rd"
| "step st (OnDecoded k r now) = ondecoded st k r now"
| "step st (OnError message r) = onerror st message r"
| "step st OnClose = onclose st"
| "step st (Ended source) = ended st source"

fun isStart :: "event \<Rightarrow> bool" where
  "isStart (StartListening r) = True"
| "isStart ev = False"

fun steps :: "app_state \<Rightarrow> event list \<Rightarrow> app_state" where
  "steps st [] = st"
| "steps st (ev # evs) = steps (step st ev) evs"

text \<open>The messages of a session arriving one after the other.\<close>

fun onmessages :: "app_state \<Rightarrow> (LiveServerMessage \<times> readings) list \<Rightarrow> app_state" where
  "onmessages st [] = st"
| "onmessages st ((message, rd) # ms) = onmessages (onmessage st message rd) ms"

text \<open>
  A message handled to its end before anything else happens: when the handler is
  suspended, its decoding settles with \<open>r\<close> next. \<open>onmessages_awaited\<close> handles a sequence
  of messages this way, each with the duration of its decoded buffer.
\<close>

definition onmessage_awaited ::
    "app_state \<Rightarrow> LiveServerMessage \<Rightarrow> readings \<Rightarrow> decode_result \<Rightarrow> app_state" where
  "onmessage_awaited st message rd r =
    (let st' = onmessage st message rd
     in if length (suspended st) < length (suspended st') then
          ondecoded st' (length (suspended st)) r (dateNow rd)
        else st')"

fun onmessages_awaited ::
    "app_state \<Rightarrow> (LiveServerMessage \<times> readings \<times> real) list \<Rightarrow> app_state" where
  "onmessages_awaited st [] = st"
| "onmessages_awaited st ((message, rd, duration) # ms) =
     onmessages_awaited (onmessage_awaited st message rd (Decoded duration)) ms"



definition newEffects :: "app_state \<Rightarrow> app_state \<Rightarrow> effect list" where
  "newEffects st st' = drop (length (effects st)) (effects st')"

subsection \<open>What the specification says, and the runs used as examples\<close>

text \<open>
  The specification's \<^verbatim>\<open>schedule\<close>, in its words: \<^verbatim>\<open>startAt = max(nextStartTime,
  deviceCurrentTime())\<close>, then \<^verbatim>\<open>nextStartTime = startAt + duration\<close>, the sum being
  that of two doubles. The function gives the start times of a sequence of submissions,
  each with its clock reading and its duration.
\<close>

fun spec_schedule :: "real \<Rightarrow> (real \<times> real) list \<Rightarrow> real list" where
  "spec_schedule next [] = []"
| "spec_schedule next ((now, duration) # xs) =
     (let startAt = max next now
      in startAt # spec_schedule (js_add startAt duration) xs)"





text \<open>
  The specification's \<^verbatim>\<open>appendFragment(track, text)\<close>: a fragment of the source track is
  handled by lines 169 to 173, one of the target track by lines 175 to 179.
\<close>

datatype fragment = SourceFragment Transcription | TargetFragment Transcription

fun appendFragment :: "app_state \<Rightarrow> fragment \<Rightarrow> app_state" where
  "appendFragment st (SourceFragment t) = onmessage_inputTranscription st (Some t)"
| "appendFragment st (TargetFragment t) = onmessage_outputTranscription st (Some t)"

text \<open>The concatenation of the fragments of each track, in the order they came.\<close>

fun sourceText :: "fragment list \<Rightarrow> jsstring" where
  "sourceText [] = []"
| "sourceText (SourceFragment (Transcription text) # fs) = js_string text @ sourceText fs"
| "sourceText (TargetFragment t # fs) = sourceText fs"

fun targetText :: "fragment list \<Rightarrow> jsstring" where
  "targetText [] = []"
| "targetText (TargetFragment (Transcription text) # fs) = js_string text @ targetText fs"
| "targetText (SourceFragment t # fs) = targetText fs"

definition empty_message :: LiveServerMessage where
  "empty_message = \<lparr> inputTranscription = None, outputTranscription = None,
     modelTurn = None, interrupted = False, turnComplete = False \<rparr>"

definition audio_message :: "jsstring \<Rightarrow> LiveServerMessage" where
  "audio_message d =
     empty_message\<lparr> modelTurn := Some (Content (Some [Part (Some (Blob (Some d)))])) \<rparr>"

text \<open>
  A session that was started with a stream of one track, and the same session after the
  server acknowledged it.
\<close>

definition connected_state :: app_state where
  "connected_state = handleStartListening initial_state (Inr [0])"

definition listening_state :: app_state where
  "listening_state = onopen connected_state"

text \<open>
  Scenario A of the specification: a source fragment (U+4F60 U+597D), a target fragment
  (\<^verbatim>\<open>Hello\<close>), then the turn-complete signal.
\<close>

definition fragments_A :: "fragment list" where
  "fragments_A =
    [SourceFragment (Transcription (Some [0x4F60, 0x597D])),
     TargetFragment (Transcription (Some [0x48, 0x65, 0x6C, 0x6C, 0x6F]))]"

definition scenario_A :: "(LiveServerMessage \<times> readings) list" where
  "scenario_A =
    [(empty_message\<lparr> inputTranscription := Some (Transcription (Some [0x4F60, 0x597D])) \<rparr>,
      \<lparr> currentTime = 1, dateNow = 1700000000000 \<rparr>),
     (empty_message\<lparr> outputTranscription :=
        Some (Transcription (Some [0x48, 0x65, 0x6C, 0x6C, 0x6F])) \<rparr>,
      \<lparr> currentTime = 2, dateNow = 1700000000500 \<rparr>),
     (empty_message\<lparr> turnComplete := True \<rparr>,
      \<lparr> currentTime = 3, dateNow = 1700000001000 \<rparr>)]"

text \<open>A fragment of white space and a transcription that has no text.\<close>

definition fragments_undefined :: "fragment list" where
  "fragments_undefined =
    [SourceFragment (Transcription (Some [0x0020, 0x3000])),
     SourceFragment (Transcription None)]"

text \<open>
  Scenario B of the specification: a buffer of two seconds submitted at device time 0,
  then a buffer of one second submitted at device time 0.5, each decoded before the next
  message is handled.
\<close>

definition scenario_B :: "(LiveServerMessage \<times> readings \<times> real) list" where
  "scenario_B =
    [(audio_message [0x41], \<lparr> currentTime = 0, dateNow = 1700000000000 \<rparr>, 2),
     (audio_message [0x42], \<lparr> currentTime = 1 / 2, dateNow = 1700000000500 \<rparr>, 1)]"

definition playing_state :: app_state where
  "playing_state = onmessages_awaited listening_state scenario_B"



definition double_0_7 :: real where
  "double_0_7 = 3152519739159347 / 2 ^ 52"






definition turn_complete_without_parts :: LiveServerMessage where
  "turn_complete_without_parts =
     empty_message\<lparr> inputTranscription := Some (Transcription (Some [0x61])),
       modelTurn := Some (Content None), turnComplete := True \<rparr>"

text \<open>A message with a source fragment, audio and the turn-complete flag.\<close>

definition turn_complete_with_audio :: LiveServerMessage where
  "turn_complete_with_audio =
     (audio_message [0x41])\<lparr> inputTranscription := Some (Transcription (Some [0x61])),
       turnComplete := True \<rparr>"

text \<open>The session of scenario A after its turn was completed.\<close>

definition one_turn_state :: app_state where
  "one_turn_state = onmessages listening_state scenario_A"

text \<open>
  Two turns completed within one millisecond: each message brings a source fragment and
  the turn-complete flag, and both handlers read the same \<^verbatim>\<open>Date.now()\<close>.
\<close>

definition quick_turns :: "(LiveServerMessage \<times> readings) list" where
  "quick_turns =
    [(empty_message\<lparr> inputTranscription := Some (Transcription (Some [0x4F60])),
        turnComplete := True \<rparr>,
      \<lparr> currentTime = 1, dateNow = 1700000000000 \<rparr>),
     (empty_message\<lparr> inputTranscription := Some (Transcription (Some [0x597D])),
        turnComplete := True \<rparr>,
      \<lparr> currentTime = 1, dateNow = 1700000000000 \<rparr>)]"

text \<open>A session in which a turn was completed and the events that follow it to its end.\<close>

definition session_events :: "event list" where
  "session_events =
    [OnMessage turn_complete_with_audio \<lparr> currentTime = 4, dateNow = 1700000004000 \<rparr>,
     OnMessage (fst (quick_turns ! 0)) (snd (quick_turns ! 0)),
     OnDecoded 0 (Decoded 2) 1700000004100,
     Ended 0, OnAudioProcess, OnError [0x78] SessionResolved, OnClose,
     StopListening SessionRejected]"

section \<open>Properties\<close>

subsection \<open>Rounding to a double\<close>

lemma round_half_even_int: "round_half_even (of_int k) = k"
  by (simp add: round_half_even_def)



















lemma round_scaled_exact:
  assumes "2 ^ quantum (of_int n) dvd n"
  shows "round_scaled (of_int n) = n"
proof -
  define q where "q = quantum (of_int n)"
  from assms obtain k where n: "n = 2 ^ q * k"
    unfolding q_def ..
  have "real_of_int n / 2 ^ q = of_int k"
    unfolding n by simp
  then have "round_half_even (real_of_int n / 2 ^ q) = k"
    by (simp add: round_half_even_int)
  then have "round_half_even (real_of_int n / 2 ^ q) * 2 ^ q = n"
    unfolding n by simp
  then show ?thesis
    by (simp add: round_scaled_def q_def)
qed



lemma round_double_nonneg_eq:
  assumes "0 \<le> x"
  shows "round_double x = of_int (round_scaled (x * scale)) / scale"
proof (cases "x = 0")
  case True
  then show ?thesis
    by (simp add: round_double_def round_scaled_def round_half_even_def)
next
  case False
  with assms have "0 < x" by simp
  then show ?thesis
    by (simp add: round_double_def)
qed





lemma scale_split: "k \<le> 1074 \<Longrightarrow> scale = 2 ^ (1074 - k) * 2 ^ k"
  by (simp add: scale_def power_add [symmetric])

lemma round_double_exact:
  assumes "0 \<le> n" "n < 2 ^ 53" "k \<le> 1074"
  shows "round_double (of_int n / 2 ^ k) = of_int n / 2 ^ k"
proof -
  define j where "j = 1074 - k"
  define N where "N = n * 2 ^ j"
  have sc: "scale = 2 ^ j * 2 ^ k"
    unfolding j_def by (rule scale_split [OF assms(3)])
  have X: "of_int n / 2 ^ k * scale = of_int N"
    by (simp add: sc N_def)
  have "2 ^ quantum (of_int N) dvd N"
  proof (cases "n = 0")
    case True
    then show ?thesis by (simp add: N_def quantum_def)
  next
    case False
    with assms(1) have pos: "0 < n" by simp
    have "bitlen n \<le> 53"
      using assms(2) by (simp add: bitlen_le_iff_power)
    moreover have "quantum (of_int N) = nat (bitlen N - 53)"
      by (simp add: quantum_def)
    moreover have "bitlen N = bitlen n + int j"
      unfolding N_def by (rule bitlen_pow2 [OF pos])
    ultimately have "quantum (of_int N) \<le> j"
      by simp
    then have "(2::int) ^ quantum (of_int N) dvd 2 ^ j"
      by (rule le_imp_power_dvd)
    then show ?thesis
      unfolding N_def by (rule dvd_mult)
  qed
  then have r: "round_scaled (of_int N) = N"
    by (rule round_scaled_exact)
  have "0 \<le> real_of_int n / 2 ^ k"
    using assms(1) by simp
  then have "round_double (of_int n / 2 ^ k) =
      of_int (round_scaled (of_int n / 2 ^ k * scale)) / scale"
    by (rule round_double_nonneg_eq)
  also have "\<dots> = of_int N / scale"
    unfolding X r ..
  also have "\<dots> = of_int n / 2 ^ k"
    by (simp add: sc N_def)
  finally show ?thesis .
qed








lemma js_add_0_2: "js_add 0 2 = 2"
  using round_double_exact [of 2 0] by (simp add: js_add_def)

lemma js_add_2_1: "js_add 2 1 = 3"
  using round_double_exact [of 3 0] by (simp add: js_add_def)


lemma js_add_7_1: "js_add 7 1 = 8"
  using round_double_exact [of 8 0] by (simp add: js_add_def)

lemma js_add_4_2: "js_add 4 2 = 6"
  using round_double_exact [of 6 0] by (simp add: js_add_def)

lemma js_add_half_1: "js_add (1 / 2) 1 = 3 / 2"
  using round_double_exact [of 3 1] by (simp add: js_add_def)



lemma is_double_0_7: "is_double double_0_7"
  using round_double_exact [of 3152519739159347 52] by (simp add: is_double_def double_0_7_def)



subsection \<open>Auxiliary facts\<close>

lemmas onmessage_defs = onmessage_def onmessage_inputTranscription_def
  onmessage_outputTranscription_def onmessage_interrupted_def onmessage_turnComplete_def
  base64EncodedAudioString_def schedules_def onmessage_resume_def ondecoded_def
  onmessage_awaited_def

lemma listening_state_eq:
  "listening_state = \<lparr> status = LISTENING, transcriptionHistory = [], currentChinese = [],
     currentEnglish = [], sessionPromiseRef = Some SessionPromise, streamRef = Some [0],
     audioContextRef = Some ctx_running, processorRef = Some ScriptProcessorNode,
     outputAudioContextRef = Some ctx_running, nextStartTimeRef = 0, audioSourcesRef = [],
     currentChineseRef = [], currentEnglishRef = [], effects = [LiveConnect],
     nodeCounter = 0, suspended = [] \<rparr>"
  by (simp add: listening_state_def connected_state_def onopen_def handleStartListening_def
      handleStartListening_begin_def handleStartListening_resume_def initial_state_def)

lemma playing_state_eq:
  "playing_state = listening_state\<lparr> nodeCounter := 2,
     effects := [LiveConnect, SourceStart 0 0, SourceStart 1 2],
     nextStartTimeRef := 3, audioSourcesRef := [0, 1] \<rparr>"
  by (simp add: playing_state_def listening_state_eq scenario_B_def audio_message_def
      empty_message_def onmessage_defs Let_def truthy_def set_add_def js_add_0_2 js_add_2_1)

lemma one_turn_state_eq:
  "one_turn_state = listening_state\<lparr> transcriptionHistory :=
     [\<lparr> id_turn = 1700000001000, chinese = [0x4F60, 0x597D],
        english = [0x48, 0x65, 0x6C, 0x6C, 0x6F] \<rparr>] \<rparr>"
  by (simp add: one_turn_state_def listening_state_eq scenario_A_def empty_message_def
      onmessage_defs js_string_def Let_def truthy_def trim_def isWhiteSpace_def)

lemma trim_Nil_iff: "trim s = [] \<longleftrightarrow> list_all isWhiteSpace s"
proof
  assume "trim s = []"
  then have "dropWhile isWhiteSpace (rev (dropWhile isWhiteSpace s)) = []"
    by (simp add: trim_def)
  then have all: "\<forall>c \<in> set (dropWhile isWhiteSpace s). isWhiteSpace c"
    by (simp add: dropWhile_eq_Nil_conv)
  have "dropWhile isWhiteSpace s = []"
  proof (rule ccontr)
    assume ne: "dropWhile isWhiteSpace s \<noteq> []"
    then have "\<not> isWhiteSpace (hd (dropWhile isWhiteSpace s))"
      by (rule hd_dropWhile)
    moreover from ne have "hd (dropWhile isWhiteSpace s) \<in> set (dropWhile isWhiteSpace s)"
      by (rule hd_in_set)
    ultimately show False using all by blast
  qed
  then show "list_all isWhiteSpace s"
    by (simp add: dropWhile_eq_Nil_conv list_all_iff)
next
  assume "list_all isWhiteSpace s"
  then show "trim s = []"
    by (auto simp add: trim_def list_all_iff dest: set_dropWhileD)
qed


lemma cleanUpAudio_history:
  "transcriptionHistory (cleanUpAudio st) = transcriptionHistory st"
  by (simp add: cleanUpAudio_def Let_def)

lemma handleStopListening_history:
  "transcriptionHistory (handleStopListening st r) = transcriptionHistory st"
  by (simp add: handleStopListening_def cleanUpAudio_def Let_def
      split: option.splits await_result.splits)

lemma transcription_history:
  "transcriptionHistory (onmessage_inputTranscription st t) = transcriptionHistory st"
  "transcriptionHistory (onmessage_outputTranscription st t) = transcriptionHistory st"
  "transcriptionHistory (onmessage_interrupted st b) = transcriptionHistory st"
  by (simp_all add: onmessage_inputTranscription_def onmessage_outputTranscription_def
      onmessage_interrupted_def split: option.splits Transcription.splits)

lemma turnComplete_history:
  "transcriptionHistory (onmessage_turnComplete st b now) = transcriptionHistory st
   \<or> (\<exists>turn. transcriptionHistory (onmessage_turnComplete st b now) =
         transcriptionHistory st @ [turn])"
  by (simp add: onmessage_turnComplete_def Let_def)

lemma onmessage_history:
  "transcriptionHistory (onmessage st message rd) = transcriptionHistory st
   \<or> (\<exists>turn. transcriptionHistory (onmessage st message rd) =
         transcriptionHistory st @ [turn])"
proof -
  define st2 where "st2 = onmessage_outputTranscription
    (onmessage_inputTranscription st (inputTranscription message)) (outputTranscription message)"
  have h: "transcriptionHistory st2 = transcriptionHistory st"
    by (simp add: st2_def transcription_history)
  have i: "transcriptionHistory (onmessage_interrupted st2 (interrupted message)) =
      transcriptionHistory st"
    by (simp add: transcription_history h)
  from turnComplete_history [of "onmessage_interrupted st2 (interrupted message)"
      "turnComplete message" "dateNow rd"]
  show ?thesis
    unfolding onmessage_def Let_def st2_def [symmetric]
    by (simp add: h i split: sum.splits)
qed

lemma ondecoded_history:
  "transcriptionHistory (ondecoded st k r now) = transcriptionHistory st
   \<or> (\<exists>turn. transcriptionHistory (ondecoded st k r now) = transcriptionHistory st @ [turn])"
proof (cases "k < length (suspended st)")
  case False
  then show ?thesis by (simp add: ondecoded_def)
next
  case True
  show ?thesis
  proof (cases r)
    case DecodeRejected
    with True show ?thesis by (simp add: ondecoded_def onmessage_resume_def)
  next
    case (Decoded duration)
    define st3 where "st3 = st\<lparr> suspended := take k (suspended st) @ drop (Suc k) (suspended st),
      nodeCounter := Suc (nodeCounter st),
      effects := effects st @ [SourceStart (nodeCounter st) (local_nextStartTime (suspended st ! k))],
      nextStartTimeRef := js_add (local_nextStartTime (suspended st ! k)) duration,
      audioSourcesRef := set_add (nodeCounter st) (audioSourcesRef st) \<rparr>"
    have i: "transcriptionHistory
        (onmessage_interrupted st3 (interrupted (local_message (suspended st ! k)))) =
        transcriptionHistory st"
      by (simp add: transcription_history st3_def)
    have e: "ondecoded st k r now =
        onmessage_turnComplete
          (onmessage_interrupted st3 (interrupted (local_message (suspended st ! k))))
          (turnComplete (local_message (suspended st ! k))) now"
      using True Decoded by (simp add: ondecoded_def onmessage_resume_def Let_def st3_def)
    from turnComplete_history
      [of "onmessage_interrupted st3 (interrupted (local_message (suspended st ! k)))"
        "turnComplete (local_message (suspended st ! k))" now]
    show ?thesis
      unfolding e i .
  qed
qed

lemma step_history:
  assumes "\<not> isStart ev"
  shows "transcriptionHistory (step st ev) = transcriptionHistory st
       \<or> (\<exists>turn. transcriptionHistory (step st ev) = transcriptionHistory st @ [turn])"
proof (cases ev)
  case (StartListening r)
  with assms show ?thesis by simp
next
  case (StopListening r)
  then show ?thesis
    by (simp add: handleStopListening_history)
next
  case OnOpen
  then show ?thesis by (simp add: onopen_def)
next
  case OnAudioProcess
  then show ?thesis by (simp add: onaudioprocess_def split: option.splits)
next
  case (OnMessage message rd)
  with onmessage_history [of st message rd] show ?thesis by simp
next
  case (OnDecoded k r now)
  with ondecoded_history [of st k r now] show ?thesis by simp
next
  case (OnError message r)
  then show ?thesis
    by (simp add: onerror_def handleStopListening_history)
next
  case OnClose
  then show ?thesis by (simp add: onclose_def cleanUpAudio_history)
next
  case (Ended source)
  then show ?thesis by (simp add: ended_def)
qed

lemma steps_history:
  assumes "\<forall>ev \<in> set evs. \<not> isStart ev"
  shows "\<exists>turns. transcriptionHistory (steps st evs) = transcriptionHistory st @ turns"
  using assms
proof (induction evs arbitrary: st)
  case Nil
  then show ?case by simp
next
  case (Cons ev evs)
  from Cons.prems have here: "\<not> isStart ev" and rest: "\<forall>ev \<in> set evs. \<not> isStart ev"
    by simp_all
  from Cons.IH [OF rest, of "step st ev"] obtain turns where
    t: "transcriptionHistory (steps (step st ev) evs) = transcriptionHistory (step st ev) @ turns"
    by blast
  from step_history [OF here, of st] show ?case
  proof
    assume "transcriptionHistory (step st ev) = transcriptionHistory st"
    with t show ?thesis by simp
  next
    assume "\<exists>turn. transcriptionHistory (step st ev) = transcriptionHistory st @ [turn]"
    then obtain turn where "transcriptionHistory (step st ev) = transcriptionHistory st @ [turn]"
      by blast
    with t have "transcriptionHistory (steps st (ev # evs)) =
        transcriptionHistory st @ (turn # turns)"
      by simp
    then show ?thesis by blast
  qed
qed









lemma spec_schedule_length: "length (spec_schedule n xs) = length xs"
  by (induction n xs rule: spec_schedule.induct) (simp_all add: Let_def)


lemma appendFragments:
  "currentChineseRef (foldl appendFragment st fs) = currentChineseRef st @ sourceText fs
   \<and> currentEnglishRef (foldl appendFragment st fs) = currentEnglishRef st @ targetText fs
   \<and> transcriptionHistory (foldl appendFragment st fs) = transcriptionHistory st"
proof (induction fs arbitrary: st)
  case Nil
  show ?case by simp
next
  case (Cons f fs)
  show ?case
  proof (cases f)
    case (SourceFragment t)
    obtain s where t: "t = Transcription s" by (cases t)
    from Cons.IH [of "appendFragment st f"] show ?thesis
      by (simp add: SourceFragment t onmessage_inputTranscription_def)
  next
    case (TargetFragment t)
    obtain s where t: "t = Transcription s" by (cases t)
    from Cons.IH [of "appendFragment st f"] show ?thesis
      by (simp add: TargetFragment t onmessage_outputTranscription_def)
  qed
qed

lemma completeTurn:
  "transcriptionHistory (onmessage_turnComplete st True now) =
     (if trim (currentChineseRef st) = [] \<and> trim (currentEnglishRef st) = []
      then transcriptionHistory st
      else transcriptionHistory st @
        [\<lparr> id_turn = now, chinese = currentChineseRef st, english = currentEnglishRef st \<rparr>])"
  "currentChineseRef (onmessage_turnComplete st True now) = []"
  "currentEnglishRef (onmessage_turnComplete st True now) = []"
  "currentChinese (onmessage_turnComplete st True now) = []"
  "currentEnglish (onmessage_turnComplete st True now) = []"
  by (simp_all add: onmessage_turnComplete_def truthy_def Let_def)

subsection \<open>Playback scheduling\<close>




subsection \<open>Transcript turns\<close>

text \<open>
  C2. Take a state whose two accumulators are empty, as the previous completion left them,
  append any fragments (lines 169 to 173 for the source track, 175 to 179 for the target
  track) and run the turn-complete block, lines 213 to 225. When the fragments of both
  tracks together are empty or only white space, the history is what it was. Otherwise
  exactly one turn is appended: its identifier is the \<^verbatim>\<open>Date.now()\<close> read by the block,
  its source and target texts are the concatenation of what was appended to each track
  in the order it came, also when one of the two is empty. In both cases the accumulators
  are empty afterwards. What is appended for a transcription is its text, and the word
  \<^verbatim>\<open>undefined\<close> when it has none.
\<close>

theorem turn_completion:
  assumes clear: "currentChineseRef st = []" "currentEnglishRef st = []"
  shows "let src = sourceText fs; tgt = targetText fs;
             st' = onmessage_turnComplete (foldl appendFragment st fs) True now
         in (if list_all isWhiteSpace src \<and> list_all isWhiteSpace tgt
             then transcriptionHistory st' = transcriptionHistory st
             else transcriptionHistory st' = transcriptionHistory st @
                    [\<lparr> id_turn = now, chinese = src, english = tgt \<rparr>]
                  \<and> length (transcriptionHistory st') = length (transcriptionHistory st) + 1)
            \<and> currentChineseRef st' = [] \<and> currentEnglishRef st' = []"
  using appendFragments [of st fs] clear
  by (simp add: Let_def completeTurn trim_Nil_iff)

theorem turn_completion_witness:
  "currentChineseRef listening_state = [] \<and> currentEnglishRef listening_state = []
   \<and> transcriptionHistory
        (onmessage_turnComplete (foldl appendFragment listening_state fragments_A) True
           1700000001000) =
        [\<lparr> id_turn = 1700000001000, chinese = [0x4F60, 0x597D],
           english = [0x48, 0x65, 0x6C, 0x6C, 0x6F] \<rparr>]
   \<and> transcriptionHistory (onmessages listening_state scenario_A) =
        [\<lparr> id_turn = 1700000001000, chinese = [0x4F60, 0x597D],
           english = [0x48, 0x65, 0x6C, 0x6C, 0x6F] \<rparr>]
   \<and> transcriptionHistory
        (onmessage_turnComplete (foldl appendFragment listening_state fragments_undefined) True
           1700000002000) =
        [\<lparr> id_turn = 1700000002000,
           chinese = [0x0020, 0x3000, 0x75, 0x6E, 0x64, 0x65, 0x66, 0x69, 0x6E, 0x65, 0x64],
           english = [] \<rparr>]
   \<and> currentChineseRef
        (onmessage_turnComplete (foldl appendFragment listening_state fragments_A) True
           1700000001000) = []
   \<and> currentEnglishRef
        (onmessage_turnComplete (foldl appendFragment listening_state fragments_A) True
           1700000001000) = []"
proof -
  have h1: "currentChineseRef listening_state = []"
    and h2: "currentEnglishRef listening_state = []"
    and h0: "transcriptionHistory listening_state = []"
    by (simp_all add: listening_state_eq)
  have ws: "\<not> isWhiteSpace 0x4F60" "\<not> isWhiteSpace 0x75"
    by (simp_all add: isWhiteSpace_def)
  have a: "sourceText fragments_A = [0x4F60, 0x597D]"
    "targetText fragments_A = [0x48, 0x65, 0x6C, 0x6C, 0x6F]"
    by (simp_all add: fragments_A_def js_string_def)
  have u: "sourceText fragments_undefined =
      [0x0020, 0x3000, 0x75, 0x6E, 0x64, 0x65, 0x66, 0x69, 0x6E, 0x65, 0x64]"
    "targetText fragments_undefined = []"
    by (simp_all add: fragments_undefined_def js_string_def js_of_ascii_def)
  have m: "transcriptionHistory (onmessages listening_state scenario_A) =
        [\<lparr> id_turn = 1700000001000, chinese = [0x4F60, 0x597D],
           english = [0x48, 0x65, 0x6C, 0x6C, 0x6F] \<rparr>]"
    using one_turn_state_eq by (simp add: one_turn_state_def listening_state_eq)
  from turn_completion [OF h1 h2, of fragments_A 1700000001000]
    turn_completion [OF h1 h2, of fragments_undefined 1700000002000]
  show ?thesis
    by (simp add: h0 h1 h2 ws a u m Let_def)
qed

subsection \<open>Flushing the playback queue\<close>


subsection \<open>The turn-complete signal\<close>

text \<open>
  C10. A message with the turn-complete flag whose model turn has no \<^verbatim>\<open>parts\<close> throws a
  TypeError at line 181, after the fragment was appended and before lines 213 to 225:
  the accumulator and the string on display keep the fragment. The same holds for a
  message with audio and the flag when the decoding is rejected at the \<^verbatim>\<open>await\<close> of
  line 188, which nothing catches.
\<close>

theorem turn_complete_not_cleared:
  "turnComplete turn_complete_without_parts
   \<and> currentChineseRef (onmessage listening_state turn_complete_without_parts
        \<lparr> currentTime = 1, dateNow = 1700000001000 \<rparr>) = [0x61]
   \<and> currentChinese (onmessage listening_state turn_complete_without_parts
        \<lparr> currentTime = 1, dateNow = 1700000001000 \<rparr>) = [0x61]
   \<and> transcriptionHistory (onmessage listening_state turn_complete_without_parts
        \<lparr> currentTime = 1, dateNow = 1700000001000 \<rparr>) = []
   \<and> turnComplete turn_complete_with_audio
   \<and> currentChineseRef (onmessage_awaited listening_state turn_complete_with_audio
        \<lparr> currentTime = 1, dateNow = 1700000001000 \<rparr> DecodeRejected) = [0x61]
   \<and> currentChinese (onmessage_awaited listening_state turn_complete_with_audio
        \<lparr> currentTime = 1, dateNow = 1700000001000 \<rparr> DecodeRejected) = [0x61]
   \<and> suspended (onmessage_awaited listening_state turn_complete_with_audio
        \<lparr> currentTime = 1, dateNow = 1700000001000 \<rparr> DecodeRejected) = []"
  by (simp add: turn_complete_without_parts_def turn_complete_with_audio_def
      listening_state_eq audio_message_def empty_message_def onmessage_defs js_string_def
      Let_def truthy_def)

subsection \<open>The remote close event\<close>

text \<open>
  C9. On a close event the status stays Error when it is Error and becomes Idle
  otherwise. In both cases the teardown runs: every track of the captured stream is
  stopped, the processor is disconnected, both audio contexts are closed unless they are
  closed already, every active source is stopped, and the refs are cleared.
\<close>

theorem onclose_teardown:
  "status (onclose st) = (if status st = ERROR then ERROR else IDLE)
   \<and> streamRef (onclose st) = None \<and> processorRef (onclose st) = None
   \<and> audioContextRef (onclose st) = None \<and> outputAudioContextRef (onclose st) = None
   \<and> audioSourcesRef (onclose st) = [] \<and> nextStartTimeRef (onclose st) = 0
   \<and> (\<forall>tracks. streamRef st = Some tracks \<longrightarrow>
         (\<forall>track \<in> set tracks. TrackStop track \<in> set (newEffects st (onclose st))))
   \<and> (processorRef st \<noteq> None \<longrightarrow> ProcessorDisconnect \<in> set (newEffects st (onclose st)))
   \<and> (\<forall>s. audioContextRef st = Some s \<and> s \<noteq> ctx_closed \<longrightarrow>
         InputContextClose \<in> set (newEffects st (onclose st)))
   \<and> (\<forall>s. outputAudioContextRef st = Some s \<and> s \<noteq> ctx_closed \<longrightarrow>
         OutputContextClose \<in> set (newEffects st (onclose st)))
   \<and> (\<forall>source \<in> set (audioSourcesRef st).
         SourceStop source \<in> set (newEffects st (onclose st)))"
  by (auto simp add: onclose_def cleanUpAudio_def newEffects_def Let_def)

theorem onclose_teardown_witness:
  "status (onclose (playing_state\<lparr> status := ERROR \<rparr>)) = ERROR
   \<and> status (onclose playing_state) = IDLE
   \<and> streamRef playing_state = Some [0]
   \<and> audioSourcesRef playing_state = [0, 1]
   \<and> newEffects playing_state (onclose playing_state) =
        [TrackStop 0, ProcessorDisconnect, InputContextClose, OutputContextClose,
         SourceStop 0, SourceStop 1]
   \<and> streamRef (onclose playing_state) = None
   \<and> audioSourcesRef (onclose playing_state) = []"
proof -
  have e: "newEffects playing_state (onclose playing_state) =
        [TrackStop 0, ProcessorDisconnect, InputContextClose, OutputContextClose,
         SourceStop 0, SourceStop 1]"
    by (simp add: playing_state_eq listening_state_eq onclose_def cleanUpAudio_def
        newEffects_def Let_def)
  from onclose_teardown [of "playing_state\<lparr> status := ERROR \<rparr>"]
    onclose_teardown [of playing_state] e
  show ?thesis
    by (simp add: playing_state_eq listening_state_eq)
qed

subsection \<open>Stopping twice\<close>

text \<open>
  C7. A call of \<^verbatim>\<open>handleStopListening\<close> leaves the status Idle and the session ref
  cleared; a second call right after it throws nothing and leaves the whole state as the
  first call left it: the status, the history, the fragment strings, the scheduler, the
  refs, and no further call is made on a device or on the session.
\<close>

theorem stop_twice:
  "status (handleStopListening st r) = IDLE
   \<and> sessionPromiseRef (handleStopListening st r) = None
   \<and> handleStopListening (handleStopListening st r) r' = handleStopListening st r
   \<and> newEffects (handleStopListening st r)
        (handleStopListening (handleStopListening st r) r') = []"
  by (simp add: handleStopListening_def cleanUpAudio_def newEffects_def Let_def
      split: option.splits await_result.splits)

theorem stop_twice_witness:
  "status (handleStopListening playing_state SessionResolved) = IDLE
   \<and> sessionPromiseRef (handleStopListening playing_state SessionResolved) = None
   \<and> handleStopListening (handleStopListening playing_state SessionResolved) SessionRejected
        = handleStopListening playing_state SessionResolved
   \<and> newEffects playing_state (handleStopListening playing_state SessionResolved) =
        [SessionClose, TrackStop 0, ProcessorDisconnect, InputContextClose,
         OutputContextClose, SourceStop 0, SourceStop 1]"
proof -
  have e: "newEffects playing_state (handleStopListening playing_state SessionResolved) =
        [SessionClose, TrackStop 0, ProcessorDisconnect, InputContextClose,
         OutputContextClose, SourceStop 0, SourceStop 1]"
    by (simp add: playing_state_eq listening_state_eq handleStopListening_def
        cleanUpAudio_def newEffects_def Let_def)
  from stop_twice [of playing_state SessionResolved SessionRejected] e
  show ?thesis by simp
qed

subsection \<open>The history of turns\<close>

text \<open>
  C8. Every operation other than \<^verbatim>\<open>handleStartListening\<close> (stop, the open, message,
  error and close callbacks, the capture callback, the end of a source) leaves the
  history as it is or appends one turn at its end. A remote error leaves it as it is.
  \<^verbatim>\<open>handleStartListening\<close> empties it. So after any sequence of operations without a
  start, the history is the one before followed by the turns appended since.
\<close>

theorem history_append_only:
  "(\<not> isStart ev \<longrightarrow>
      transcriptionHistory (step st ev) = transcriptionHistory st
      \<or> (\<exists>turn. transcriptionHistory (step st ev) = transcriptionHistory st @ [turn]))
   \<and> transcriptionHistory (step st (OnError message r)) = transcriptionHistory st
   \<and> transcriptionHistory (handleStartListening_begin st) = []
   \<and> transcriptionHistory (step st (StartListening g)) = []
   \<and> ((\<forall>ev \<in> set evs. \<not> isStart ev) \<longrightarrow>
        (\<exists>turns. transcriptionHistory (steps st evs) = transcriptionHistory st @ turns))"
proof (intro conjI impI)
  assume "\<not> isStart ev"
  then show "transcriptionHistory (step st ev) = transcriptionHistory st
      \<or> (\<exists>turn. transcriptionHistory (step st ev) = transcriptionHistory st @ [turn])"
    by (rule step_history)
next
  show "transcriptionHistory (step st (OnError message r)) = transcriptionHistory st"
    by (simp add: onerror_def handleStopListening_history)
next
  show "transcriptionHistory (handleStartListening_begin st) = []"
    by (simp add: handleStartListening_begin_def)
next
  show "transcriptionHistory (step st (StartListening g)) = []"
    by (simp add: handleStartListening_def handleStartListening_begin_def
        handleStartListening_resume_def cleanUpAudio_def Let_def split: sum.splits)
next
  assume "\<forall>ev \<in> set evs. \<not> isStart ev"
  then show "\<exists>turns. transcriptionHistory (steps st evs) = transcriptionHistory st @ turns"
    by (rule steps_history)
qed

theorem history_append_only_witness:
  "list_all (\<lambda>ev. \<not> isStart ev) session_events
   \<and> length (transcriptionHistory one_turn_state) = 1
   \<and> transcriptionHistory (step one_turn_state (OnError [0x78] SessionResolved)) =
        transcriptionHistory one_turn_state
   \<and> take 1 (transcriptionHistory (steps one_turn_state session_events)) =
        transcriptionHistory one_turn_state
   \<and> length (transcriptionHistory (steps one_turn_state session_events)) = 2
   \<and> transcriptionHistory (step (steps one_turn_state session_events)
        (StartListening (Inr [1]))) = []"
proof -
  have h: "\<forall>ev \<in> set session_events. \<not> isStart ev"
    by (simp add: session_events_def)
  have l: "length (transcriptionHistory one_turn_state) = 1"
    by (simp add: one_turn_state_eq)
  have s: "length (transcriptionHistory (steps one_turn_state session_events)) = 2"
    by (simp add: session_events_def one_turn_state_eq listening_state_eq
        turn_complete_with_audio_def audio_message_def quick_turns_def empty_message_def
        onmessage_defs js_string_def onerror_def onclose_def ended_def onaudioprocess_def
        handleStopListening_def cleanUpAudio_def Let_def truthy_def trim_def isWhiteSpace_def
        set_add_def set_delete_def)
  from history_append_only [of "OnError [0x78] SessionResolved" one_turn_state "[0x78]"
      SessionResolved "Inr [1]" session_events] h
  obtain turns where
    e: "transcriptionHistory (step one_turn_state (OnError [0x78] SessionResolved)) =
        transcriptionHistory one_turn_state"
    and t: "transcriptionHistory (steps one_turn_state session_events) =
        transcriptionHistory one_turn_state @ turns"
    by blast
  from history_append_only [of "OnError [0x78] SessionResolved"
      "steps one_turn_state session_events" "[0x78]" SessionResolved "Inr [1]" "[]"]
  have c: "transcriptionHistory (step (steps one_turn_state session_events)
        (StartListening (Inr [1]))) = []"
    by blast
  from h l s e t c show ?thesis
    by (simp add: list_all_iff)
qed

subsection \<open>A start that fails at the capture device\<close>

text \<open>
  C4, as amended. When \<^verbatim>\<open>getUserMedia\<close> fails in a start from Idle, the status is set
  to Connecting at the beginning of the handler, before the device is asked for, and to
  Error in the \<^verbatim>\<open>catch\<close>: the run goes Idle, Connecting, Error. The status is never
  Listening, \<^verbatim>\<open>ai.live.connect\<close> is not called and the session ref is left as it was.
\<close>

theorem start_acquisition_failure:
  assumes "status st = IDLE"
  shows "map status (handleStartListening_run st (Inl errorMessage)) = [IDLE, CONNECTING, ERROR]
       \<and> LISTENING \<notin> set (map status (handleStartListening_run st (Inl errorMessage)))
       \<and> LiveConnect \<notin> set (newEffects st (handleStartListening st (Inl errorMessage)))
       \<and> sessionPromiseRef (handleStartListening st (Inl errorMessage)) = sessionPromiseRef st"
  using assms
  by (auto simp add: handleStartListening_run_def handleStartListening_def
      handleStartListening_begin_def handleStartListening_resume_def cleanUpAudio_def
      newEffects_def Let_def split: option.splits)

theorem start_acquisition_failure_witness:
  "status initial_state = IDLE
   \<and> map status (handleStartListening_run initial_state (Inl [0x78])) = [IDLE, CONNECTING, ERROR]
   \<and> newEffects initial_state (handleStartListening initial_state (Inl [0x78])) = []
   \<and> sessionPromiseRef (handleStartListening initial_state (Inl [0x78])) = None"
proof -
  have i: "status initial_state = IDLE"
    by (simp add: initial_state_def)
  have e: "newEffects initial_state (handleStartListening initial_state (Inl [0x78])) = []"
    by (simp add: initial_state_def handleStartListening_def handleStartListening_begin_def
        handleStartListening_resume_def cleanUpAudio_def newEffects_def Let_def)
  from start_acquisition_failure [OF i, of "[0x78]"] i e show ?thesis
    by (simp add: initial_state_def)
qed

text \<open>
  C4 as it was stated, with a status that is never Connecting in such a run, fails at the
  first start of the component.
\<close>

theorem start_acquisition_failure_counterexample:
  "status initial_state = IDLE
   \<and> CONNECTING \<in> set (map status (handleStartListening_run initial_state (Inl [0x78])))"
  by (simp add: initial_state_def handleStartListening_run_def handleStartListening_def
      handleStartListening_begin_def handleStartListening_resume_def cleanUpAudio_def Let_def)

subsection \<open>A remote error\<close>

text \<open>
  C3. The handler of a remote error sets the status to Error and then calls
  \<^verbatim>\<open>handleStopListening\<close>, whose last statement sets the status to Idle. In a
  listening session the status after the handler is Idle, whether the awaited session
  promise was resolved or rejected, and \<^verbatim>\<open>handleStopListening\<close> called in status
  Error leaves Idle as well. The close callback and the \<^verbatim>\<open>catch\<close> of
  \<^verbatim>\<open>handleStartListening\<close> keep Error.
\<close>

theorem remote_error_ends_idle:
  "status listening_state = LISTENING
   \<and> status (onerror listening_state [0x78] SessionResolved) = IDLE
   \<and> status (onerror listening_state [0x78] SessionRejected) = IDLE
   \<and> status (onclose (onerror listening_state [0x78] SessionResolved)) = IDLE
   \<and> status (handleStopListening (listening_state\<lparr> status := ERROR \<rparr>) SessionResolved) = IDLE
   \<and> status (onclose (listening_state\<lparr> status := ERROR \<rparr>)) = ERROR"
  by (simp add: listening_state_eq onerror_def onclose_def handleStopListening_def
      cleanUpAudio_def Let_def)

subsection \<open>The identifiers of turns\<close>

text \<open>
  C6. The identifier of a turn is \<^verbatim>\<open>Date.now()\<close>, the wall clock in milliseconds. Two
  turns completed in the same millisecond are two entries of the history with different
  texts and the same identifier.
\<close>

theorem same_millisecond_turns:
  "map id_turn (transcriptionHistory (onmessages listening_state quick_turns)) =
     [1700000000000, 1700000000000]
   \<and> map chinese (transcriptionHistory (onmessages listening_state quick_turns)) =
     [[0x4F60], [0x597D]]
   \<and> \<not> distinct (map id_turn (transcriptionHistory (onmessages listening_state quick_turns)))"
  by (simp add: listening_state_eq quick_turns_def empty_message_def onmessage_defs
      js_string_def Let_def truthy_def trim_def isWhiteSpace_def)

end
